theory Spec2Isabelle
  imports Main "HOL-Library.AList"
begin

section \<open>Data model of build_api_reporter.py\<close>

text \<open>
  The program reads a parsed YAML document, expands glob patterns on the file system,
  posts files and one JSON record per build to a remote service, and prints lines.
  The embedding keeps the leaves of the configuration document and of the service's JSON
  answers as strings, which is the shape the program reads them in; the structure around
  them (the kinds of document, optional keys, the two shapes of an \<open>artifacts\<close> value, a
  local variable that may be unassigned) is modelled as the code has it.
\<close>

text \<open>JSON values that the program builds for the body of a build report.\<close>

datatype json =
    JNull
  | JString string
  | JArray "json list"
  | JObject "(string \<times> json) list"

type_synonym dict = "(string \<times> json) list"

text \<open>
  The exceptions the program can end with. \<open>PyException\<close> is the plain \<open>Exception\<close>
  raised by the two reporter methods, \<open>ValueError\<close> the one raised for a missing
  \<open>builds\<close> section and for missing environment variables. \<open>SystemExit\<close> comes from
  \<open>sys.exit\<close>; it is the only one that is not an \<open>Exception\<close> for an
  \<open>except Exception\<close> clause. The others are raised by the interpreter or a library:
  a key that is absent, an attribute or subscript a value does not have, a local
  variable read before assignment, a file that cannot be opened, a document or a
  response body that does not parse.
\<close>

datatype error =
    PyException string
  | ValueError string
  | SystemExit int
  | KeyError string
  | AttributeError
  | TypeError
  | UnboundLocalError string
  | OSError string
  | YAMLError
  | JSONDecodeError

fun is_Exception :: "error \<Rightarrow> bool" where
  "is_Exception (SystemExit _) = False"
| "is_Exception _ = True"

text \<open>The dataclass \<open>KetryxConfig\<close>; every field holds what \<open>os.getenv\<close> returned.\<close>

record KetryxConfig =
  ketryx_url :: "string option"
  project :: "string option"
  api_key :: "string option"
  commit_sha :: "string option"
  version :: "string option"

text \<open>
  One entry of the \<open>builds\<close> list. The value under \<open>artifacts\<close> is a mapping from keys
  to lists of patterns (test results) or a sequence of \<open>{file, type}\<close> entries (sbom);
  the program does not check that the shape fits the \<open>type\<close> it reads.
\<close>

record sbom_artifact =
  artifact_file :: string
  artifact_type :: string

datatype artifacts_value =
    Mapping "(string \<times> string list) list"
  | Sequence "sbom_artifact list"

record build =
  build_name :: string
  build_type :: string
  build_artifacts :: artifacts_value

text \<open>
  What \<open>yaml.safe_load\<close> returns for the file: \<open>None\<close> for an empty file, a mapping,
  a string, a sequence (or set), or another scalar (a number, a boolean, a date, bytes).
  Of a mapping only the value under \<open>builds\<close> is read, so every value is typed as a list
  of builds. Of a sequence only the comparison of its elements with a string is used,
  so an element is a string or something else. Of another scalar only its truth value is
  used: it has no membership test.
\<close>

datatype item = String_Item string | Other_Item

datatype build_config =
    Doc_None
  | Doc_Mapping "(string \<times> build list) list"
  | Doc_String string
  | Doc_Sequence "item list"
  | Doc_Scalar bool

text \<open>An HTTP response: \<open>status_code\<close>, \<open>text\<close>, and \<open>json()\<close> (\<open>None\<close>: it raises).\<close>

record response =
  status_code :: int
  resp_text :: string
  resp_json :: "(string \<times> string) list option"

text \<open>The two requests, with everything the program puts into them.\<close>

record upload_request =
  upload_url :: string
  upload_params :: "(string \<times> string option) list"
  upload_headers :: "(string \<times> string) list"
  upload_filename :: string
  upload_file :: string
  upload_content_type :: string

record report_request =
  report_url :: string
  report_headers :: "(string \<times> string) list"
  report_json :: dict

text \<open>
  What the run does to the outside, in order: lines printed, requests posted.
  \<open>Print_Error e\<close> is the line \<open>Error: \<close> followed by \<open>str(e)\<close>.
\<close>

datatype event =
    Print string
  | Print_Error error
  | Upload upload_request
  | Report report_request

type_synonym trace = "event list"

fun is_request :: "event \<Rightarrow> bool" where
  "is_request (Upload _) = True"
| "is_request (Report _) = True"
| "is_request _ = False"

definition requests :: "trace \<Rightarrow> event list" where
  "requests tr = filter is_request tr"

text \<open>
  The surroundings of a run: the process environment (after \<open>load_dotenv\<close>), the file
  system as \<open>glob.glob\<close> and \<open>open\<close> see it (taken as unchanged during the run), the
  result of opening and parsing a YAML file, and the service: \<open>post k\<close> is the answer
  to the request that follows \<open>k\<close> earlier ones.
\<close>

record env =
  getenv :: "string \<Rightarrow> string option"
  glob :: "string \<Rightarrow> string list"
  readable :: "string \<Rightarrow> bool"
  yaml_file :: "string \<Rightarrow> error + build_config"
  post :: "nat \<Rightarrow> response"

section \<open>Python primitives\<close>

text \<open>Truth value of an \<open>Optional[str]\<close>: \<open>None\<close> and the empty string are false.\<close>

definition truthy :: "string option \<Rightarrow> bool" where
  "truthy v = (case v of None \<Rightarrow> False | Some s \<Rightarrow> s \<noteq> [])"

text \<open>\<open>str(v)\<close> of an \<open>Optional[str]\<close>, as an f-string renders it.\<close>

definition fmt :: "string option \<Rightarrow> string" where
  "fmt v = (case v of None \<Rightarrow> ''None'' | Some s \<Rightarrow> s)"

definition json_of :: "string option \<Rightarrow> json" where
  "json_of v = (case v of None \<Rightarrow> JNull | Some s \<Rightarrow> JString s)"

text \<open>\<open>os.getenv(k, '')\<close>.\<close>

definition getenv_default :: "env \<Rightarrow> string \<Rightarrow> string" where
  "getenv_default e k = (case getenv e k of None \<Rightarrow> [] | Some s \<Rightarrow> s)"

text \<open>\<open>s.rstrip('/')\<close> and \<open>os.path.basename\<close>.\<close>

definition rstrip_slash :: "string \<Rightarrow> string" where
  "rstrip_slash s = rev (dropWhile (\<lambda>c. c = CHR ''/'') (rev s))"

definition basename :: "string \<Rightarrow> string" where
  "basename p = rev (takeWhile (\<lambda>c. c \<noteq> CHR ''/'') (rev p))"

text \<open>\<open>d.get(k, [])\<close> on a mapping of pattern lists.\<close>

definition get_list :: "(string \<times> string list) list \<Rightarrow> string \<Rightarrow> string list" where
  "get_list m k = (case map_of m k of None \<Rightarrow> [] | Some ps \<Rightarrow> ps)"

section \<open>KetryxReporter\<close>

record KetryxReporter =
  config :: KetryxConfig
  base_url :: string
  headers :: "(string \<times> string) list"

text \<open>\<open>__init__\<close>: \<open>rstrip\<close> on a missing URL is an \<open>AttributeError\<close>.\<close>

definition init_reporter :: "KetryxConfig \<Rightarrow> error + KetryxReporter" where
  "init_reporter c =
     (case ketryx_url c of
        None \<Rightarrow> Inl AttributeError
      | Some u \<Rightarrow> Inr \<lparr> config = c, base_url = rstrip_slash u,
          headers = [(''Authorization'', ''Bearer '' @ fmt (api_key c)),
                     (''Content-Type'', ''application/json'')] \<rparr>)"

definition upload_artifact ::
  "KetryxReporter \<Rightarrow> env \<Rightarrow> string \<Rightarrow> string \<Rightarrow> trace \<Rightarrow> (error + string) \<times> trace" where
  "upload_artifact r e file_path content_type tr =
     (let url = base_url r @ ''/api/v1/build-artifacts'';
          params = [(''project'', project (config r))]
      in if \<not> readable e file_path then (Inl (OSError file_path), tr)
         else (case map_of (headers r) ''Authorization'' of
            None \<Rightarrow> (Inl (KeyError ''Authorization''), tr)
          | Some auth \<Rightarrow>
             (let resp = post e (length (requests tr));
                  tr' = tr @ [Upload \<lparr> upload_url = url, upload_params = params,
                     upload_headers = [(''Authorization'', auth)],
                     upload_filename = basename file_path, upload_file = file_path,
                     upload_content_type = content_type \<rparr>]
              in if status_code resp \<noteq> 200
                 then (Inl (PyException (''Failed to upload artifact: '' @ resp_text resp)), tr')
                 else (case resp_json resp of
                    None \<Rightarrow> (Inl JSONDecodeError, tr')
                  | Some body \<Rightarrow>
                     (case map_of body ''id'' of
                        None \<Rightarrow> (Inl (KeyError ''id''), tr')
                      | Some i \<Rightarrow> (Inr i, tr'))))))"

text \<open>The dictionary appended for one uploaded file.\<close>

definition artifact :: "string \<Rightarrow> string \<Rightarrow> dict" where
  "artifact artifact_id ty = [(''id'', JString artifact_id), (''type'', JString ty)]"

text \<open>
  The inner loop \<open>for file_path in glob.glob(pattern)\<close> and the outer loop
  \<open>for pattern in paths\<close>, which the three upload methods share up to the content
  type and the type tag; \<open>artifacts\<close> is the list being appended to.
\<close>

fun upload_files ::
  "KetryxReporter \<Rightarrow> env \<Rightarrow> string \<Rightarrow> string \<Rightarrow> string list \<Rightarrow> dict list \<Rightarrow> trace
     \<Rightarrow> (error + dict list) \<times> trace" where
  "upload_files r e ct ty [] artifacts tr = (Inr artifacts, tr)"
| "upload_files r e ct ty (file_path # fs) artifacts tr =
     (case upload_artifact r e file_path ct tr of
        (Inl err, tr') \<Rightarrow> (Inl err, tr')
      | (Inr artifact_id, tr') \<Rightarrow>
          upload_files r e ct ty fs (artifacts @ [artifact artifact_id ty]) tr')"

fun upload_patterns ::
  "KetryxReporter \<Rightarrow> env \<Rightarrow> string \<Rightarrow> string \<Rightarrow> string list \<Rightarrow> dict list \<Rightarrow> trace
     \<Rightarrow> (error + dict list) \<times> trace" where
  "upload_patterns r e ct ty [] artifacts tr = (Inr artifacts, tr)"
| "upload_patterns r e ct ty (pattern # ps) artifacts tr =
     (case upload_files r e ct ty (glob e pattern) artifacts tr of
        (Inl err, tr') \<Rightarrow> (Inl err, tr')
      | (Inr artifacts', tr') \<Rightarrow> upload_patterns r e ct ty ps artifacts' tr')"

definition upload_test_results ::
  "KetryxReporter \<Rightarrow> env \<Rightarrow> string list \<Rightarrow> string list \<Rightarrow> trace
     \<Rightarrow> (error + dict list) \<times> trace" where
  "upload_test_results r e junit_paths cucumber_paths tr =
     (case upload_patterns r e ''application/xml'' ''junit-xml'' junit_paths [] tr of
        (Inl err, tr') \<Rightarrow> (Inl err, tr')
      | (Inr artifacts, tr') \<Rightarrow>
          upload_patterns r e ''application/json'' ''cucumber-json'' cucumber_paths artifacts tr')"

definition upload_sbom ::
  "KetryxReporter \<Rightarrow> env \<Rightarrow> string list \<Rightarrow> string \<Rightarrow> trace \<Rightarrow> (error + dict list) \<times> trace" where
  "upload_sbom r e sbom_paths sbom_type tr =
     upload_patterns r e ''application/json'' (sbom_type @ ''-json'') sbom_paths [] tr"

text \<open>The dictionary \<open>data\<close> of \<open>report_build\<close>, after the version or commit is set.\<close>

definition report_data :: "KetryxReporter \<Rightarrow> env \<Rightarrow> string \<Rightarrow> dict list \<Rightarrow> dict" where
  "report_data r e name artifacts =
     (let data = [(''project'', json_of (project (config r))),
                  (''buildName'', JString name),
                  (''artifacts'', JArray (map JObject artifacts)),
                  (''sourceUrl'', JString (getenv_default e ''GITHUB_SERVER_URL'')),
                  (''repositoryUrls'', JArray [JString
                     (getenv_default e ''GITHUB_SERVER_URL'' @ ''/'' @
                      getenv_default e ''GITHUB_REPOSITORY'')])]
      in if truthy (version (config r))
         then AList.update ''version'' (json_of (version (config r))) data
         else if truthy (commit_sha (config r))
         then AList.update ''commitSha'' (json_of (commit_sha (config r))) data
         else data)"

definition report_build ::
  "KetryxReporter \<Rightarrow> env \<Rightarrow> string \<Rightarrow> dict list \<Rightarrow> trace
     \<Rightarrow> (error + (string \<times> string) list) \<times> trace" where
  "report_build r e name artifacts tr =
     (let url = base_url r @ ''/api/v1/builds'';
          data = report_data r e name artifacts;
          resp = post e (length (requests tr));
          tr' = tr @ [Report \<lparr> report_url = url, report_headers = headers r,
                       report_json = data \<rparr>]
      in if status_code resp \<noteq> 200
         then (Inl (PyException (''Failed to report build: '' @ resp_text resp)), tr')
         else (case resp_json resp of
            None \<Rightarrow> (Inl JSONDecodeError, tr')
          | Some body \<Rightarrow> (Inr body, tr')))"

section \<open>process_build_config\<close>

text \<open>\<open>sub in s\<close> on strings: \<open>sub\<close> occurs in \<open>s\<close> as a substring.\<close>

fun contains :: "string \<Rightarrow> string \<Rightarrow> bool" where
  "contains sub [] = (sub = [])"
| "contains sub (c # cs) = (take (length sub) (c # cs) = sub \<or> contains sub cs)"

text \<open>
  The three things \<open>process_build_config\<close> does with the parsed document: its truth
  value (\<open>not build_config\<close>), the membership test \<open>key in build_config\<close> (keys of a
  mapping, substrings of a string, elements of a sequence; a \<open>TypeError\<close> on anything
  else), and the subscript \<open>build_config[key]\<close> (a \<open>TypeError\<close> on anything but a
  mapping, which has no string subscript).
\<close>

fun doc_truthy :: "build_config \<Rightarrow> bool" where
  "doc_truthy Doc_None = False"
| "doc_truthy (Doc_Mapping d) = (d \<noteq> [])"
| "doc_truthy (Doc_String s) = (s \<noteq> [])"
| "doc_truthy (Doc_Sequence xs) = (xs \<noteq> [])"
| "doc_truthy (Doc_Scalar t) = t"

fun doc_contains :: "string \<Rightarrow> build_config \<Rightarrow> error + bool" where
  "doc_contains key (Doc_Mapping d) = Inr (map_of d key \<noteq> None)"
| "doc_contains key (Doc_String s) = Inr (contains key s)"
| "doc_contains key (Doc_Sequence xs) = Inr (String_Item key \<in> set xs)"
| "doc_contains key Doc_None = Inl TypeError"
| "doc_contains key (Doc_Scalar t) = Inl TypeError"

fun doc_subscript :: "build_config \<Rightarrow> string \<Rightarrow> error + build list" where
  "doc_subscript (Doc_Mapping d) key =
     (case map_of d key of None \<Rightarrow> Inl (KeyError key) | Some builds \<Rightarrow> Inr builds)"
| "doc_subscript _ key = Inl TypeError"

text \<open>
  The three loops that append to \<open>missing_files\<close>: over a list of patterns (with the
  label of the message), and over the entries of an sbom build.
\<close>

fun scan_patterns :: "env \<Rightarrow> string \<Rightarrow> string list \<Rightarrow> string list \<Rightarrow> string list" where
  "scan_patterns e label [] missing_files = missing_files"
| "scan_patterns e label (path # ps) missing_files =
     scan_patterns e label ps
       (if glob e path = [] then missing_files @ [label @ path] else missing_files)"

fun scan_sbom :: "env \<Rightarrow> sbom_artifact list \<Rightarrow> string list \<Rightarrow> string list" where
  "scan_sbom e [] missing_files = missing_files"
| "scan_sbom e (a # as) missing_files =
     scan_sbom e as
       (if glob e (artifact_file a) = []
        then missing_files @ [''SBOM file not found: '' @ artifact_file a]
        else missing_files)"

text \<open>
  The loop over the builds. Where the value under \<open>artifacts\<close> has the other shape,
  Python raises: a list has no \<open>get\<close>, and the keys of a non-empty mapping are strings,
  which have no subscript \<open>'file'\<close>.
\<close>

fun scan_builds :: "env \<Rightarrow> build list \<Rightarrow> string list \<Rightarrow> error + string list" where
  "scan_builds e [] missing_files = Inr missing_files"
| "scan_builds e (b # bs) missing_files =
     (if build_type b = ''test-results'' then
        (case build_artifacts b of
           Sequence _ \<Rightarrow> Inl AttributeError
         | Mapping m \<Rightarrow>
             scan_builds e bs
               (scan_patterns e ''Cucumber file not found: '' (get_list m ''cucumber'')
                 (scan_patterns e ''JUnit file not found: '' (get_list m ''junit'')
                    missing_files)))
      else if build_type b = ''sbom'' then
        (case build_artifacts b of
           Mapping m \<Rightarrow> (if m = [] then scan_builds e bs missing_files else Inl TypeError)
         | Sequence as \<Rightarrow> scan_builds e bs (scan_sbom e as missing_files))
      else scan_builds e bs missing_files)"

definition missing_header :: string where
  "missing_header = CHR 0x0A # ''Missing files:''"

definition invalid_config :: string where
  "invalid_config = ''Invalid config file: missing '' @ [CHR 0x27] @ ''builds'' @ [CHR 0x27] @ '' section''"

definition process_build_config ::
  "env \<Rightarrow> string \<Rightarrow> trace \<Rightarrow> (error + build list) \<times> trace" where
  "process_build_config e config_file tr =
     (case yaml_file e config_file of
        Inl err \<Rightarrow> (Inl err, tr)
      | Inr build_config \<Rightarrow>
         if \<not> doc_truthy build_config then (Inl (ValueError invalid_config), tr)
         else (case doc_contains ''builds'' build_config of
            Inl err \<Rightarrow> (Inl err, tr)
          | Inr False \<Rightarrow> (Inl (ValueError invalid_config), tr)
          | Inr True \<Rightarrow>
             (case doc_subscript build_config ''builds'' of
                Inl err \<Rightarrow> (Inl err, tr)
              | Inr builds \<Rightarrow>
                 (case scan_builds e builds [] of
                    Inl err \<Rightarrow> (Inl err, tr)
                  | Inr missing_files \<Rightarrow>
                     if missing_files \<noteq> []
                     then (Inl (SystemExit 1),
                           tr @ Print missing_header #
                                map (\<lambda>file. Print (''  - '' @ file)) missing_files)
                     else (Inr builds, tr)))))"

section \<open>main\<close>

text \<open>
  The local variable \<open>artifacts\<close> of \<open>main\<close> is \<open>None\<close> until it is first assigned and
  keeps its value from one build to the next.
\<close>

text \<open>The loop \<open>for artifact in build['artifacts']\<close> of the sbom branch.\<close>

fun main_sbom ::
  "KetryxReporter \<Rightarrow> env \<Rightarrow> sbom_artifact list \<Rightarrow> dict list option \<Rightarrow> trace
     \<Rightarrow> (error + dict list option) \<times> trace" where
  "main_sbom r e [] artifacts tr = (Inr artifacts, tr)"
| "main_sbom r e (a # as) artifacts tr =
     (case upload_sbom r e [artifact_file a] (artifact_type a) tr of
        (Inl err, tr') \<Rightarrow> (Inl err, tr')
      | (Inr artifacts', tr') \<Rightarrow> main_sbom r e as (Some artifacts') tr')"

text \<open>The last two statements of the loop body: report the build, print the line.\<close>

definition main_report ::
  "KetryxReporter \<Rightarrow> env \<Rightarrow> build \<Rightarrow> dict list option \<Rightarrow> trace
     \<Rightarrow> (error + dict list option) \<times> trace" where
  "main_report r e b artifacts tr =
     (case artifacts of
        None \<Rightarrow> (Inl (UnboundLocalError ''artifacts''), tr)
      | Some as \<Rightarrow>
         (case report_build r e (build_name b) as tr of
            (Inl err, tr') \<Rightarrow> (Inl err, tr')
          | (Inr build_result, tr') \<Rightarrow>
              (Inr artifacts,
               tr' @ [Print (''Reported '' @ build_name b @ '' to Ketryx: '' @
                              fmt (map_of build_result ''buildId''))])))"

definition unknown_type_warning :: "build \<Rightarrow> string" where
  "unknown_type_warning b =
     ''Warning: Unknown build type '' @ [CHR 0x27] @ build_type b @ [CHR 0x27]"

text \<open>The body of \<open>for build in builds\<close>; it returns the variable \<open>artifacts\<close>.\<close>

definition main_build ::
  "KetryxReporter \<Rightarrow> env \<Rightarrow> build \<Rightarrow> dict list option \<Rightarrow> trace
     \<Rightarrow> (error + dict list option) \<times> trace" where
  "main_build r e b artifacts tr =
     (if build_type b = ''test-results'' then
        (case build_artifacts b of
           Sequence _ \<Rightarrow> (Inl AttributeError, tr)
         | Mapping m \<Rightarrow>
            (case upload_test_results r e (get_list m ''junit'') (get_list m ''cucumber'') tr of
               (Inl err, tr') \<Rightarrow> (Inl err, tr')
             | (Inr artifacts', tr') \<Rightarrow> main_report r e b (Some artifacts') tr'))
      else if build_type b = ''sbom'' then
        (case build_artifacts b of
           Mapping m \<Rightarrow> (if m = [] then main_report r e b artifacts tr else (Inl TypeError, tr))
         | Sequence as \<Rightarrow>
            (case main_sbom r e as artifacts tr of
               (Inl err, tr') \<Rightarrow> (Inl err, tr')
             | (Inr artifacts', tr') \<Rightarrow> main_report r e b artifacts' tr'))
      else (Inr artifacts, tr @ [Print (unknown_type_warning b)]))"

fun main_builds ::
  "KetryxReporter \<Rightarrow> env \<Rightarrow> build list \<Rightarrow> dict list option \<Rightarrow> trace
     \<Rightarrow> (error + unit) \<times> trace" where
  "main_builds r e [] artifacts tr = (Inr (), tr)"
| "main_builds r e (b # bs) artifacts tr =
     (case main_build r e b artifacts tr of
        (Inl err, tr') \<Rightarrow> (Inl err, tr')
      | (Inr artifacts', tr') \<Rightarrow> main_builds r e bs artifacts' tr')"

text \<open>The body of the \<open>try\<close> statement.\<close>

definition main_try ::
  "KetryxReporter \<Rightarrow> env \<Rightarrow> string \<Rightarrow> trace \<Rightarrow> (error + unit) \<times> trace" where
  "main_try r e config_file tr =
     (case process_build_config e config_file tr of
        (Inl err, tr') \<Rightarrow> (Inl err, tr')
      | (Inr builds, tr') \<Rightarrow> main_builds r e builds None tr')"

text \<open>The configuration read from the environment, and the check that follows it.\<close>

definition main_config :: "env \<Rightarrow> error + KetryxConfig" where
  "main_config e =
     (let c = \<lparr> ketryx_url = getenv e ''KETRYX_URL'',
                 project = getenv e ''KETRYX_PROJECT'',
                 api_key = getenv e ''KETRYX_API_KEY'',
                 commit_sha = getenv e ''GITHUB_SHA'',
                 version = getenv e ''KETRYX_VERSION'' \<rparr>
      in if \<not> list_all truthy [project c, api_key c, version c]
         then Inl (ValueError ''Missing required environment variables'')
         else Inr c)"

definition main :: "env \<Rightarrow> string \<Rightarrow> (error + unit) \<times> trace" where
  "main e config_file =
     (case main_config e of
        Inl err \<Rightarrow> (Inl err, [])
      | Inr c \<Rightarrow>
         (case init_reporter c of
            Inl err \<Rightarrow> (Inl err, [])
          | Inr reporter \<Rightarrow>
             (case main_try reporter e config_file [] of
                (Inl err, tr) \<Rightarrow>
                  (Inl err, if is_Exception err then tr @ [Print_Error err] else tr)
              | (Inr u, tr) \<Rightarrow> (Inr u, tr))))"

section \<open>Specification-level definitions\<close>

text \<open>
  The missing-file entries as the specification describes them: every pattern of every
  build that matches no file, in the order of the document (junit before cucumber inside
  a test-results build).
\<close>

definition labelled_patterns :: "build \<Rightarrow> (string \<times> string) list" where
  "labelled_patterns b =
     (if build_type b = ''test-results'' then
        (case build_artifacts b of
           Mapping m \<Rightarrow> map (Pair ''JUnit file not found: '') (get_list m ''junit'') @
                        map (Pair ''Cucumber file not found: '') (get_list m ''cucumber'')
         | Sequence _ \<Rightarrow> [])
      else if build_type b = ''sbom'' then
        (case build_artifacts b of
           Mapping _ \<Rightarrow> []
         | Sequence as \<Rightarrow> map (\<lambda>a. (''SBOM file not found: '', artifact_file a)) as)
      else [])"

definition unmatched :: "env \<Rightarrow> string \<times> string \<Rightarrow> bool" where
  "unmatched e lp = (glob e (snd lp) = [])"

definition missing_entries :: "env \<Rightarrow> build list \<Rightarrow> string list" where
  "missing_entries e builds =
     map (\<lambda>lp. fst lp @ snd lp) (filter (unmatched e) (concat (map labelled_patterns builds)))"

text \<open>
  A build whose \<open>artifacts\<close> value has the shape its \<open>type\<close> is read with: a mapping for
  test results, a sequence of entries for an sbom. Other types are not looked into.
\<close>

definition well_shaped :: "build \<Rightarrow> bool" where
  "well_shaped b =
     (if build_type b = ''test-results'' then (case build_artifacts b of Mapping _ \<Rightarrow> True | Sequence _ \<Rightarrow> False)
      else if build_type b = ''sbom'' then (case build_artifacts b of Mapping _ \<Rightarrow> False | Sequence _ \<Rightarrow> True)
      else True)"



text \<open>The request that \<open>upload_artifact\<close> posts for a file and a content type.\<close>

definition upload_request_of :: "KetryxReporter \<Rightarrow> string \<Rightarrow> string \<Rightarrow> string \<Rightarrow> upload_request" where
  "upload_request_of r auth file_path content_type =
     \<lparr> upload_url = base_url r @ ''/api/v1/build-artifacts'',
       upload_params = [(''project'', project (config r))],
       upload_headers = [(''Authorization'', auth)],
       upload_filename = basename file_path, upload_file = file_path,
       upload_content_type = content_type \<rparr>"

section \<open>Concrete surroundings\<close>

definition config0 :: KetryxConfig where
  "config0 = \<lparr> ketryx_url = Some ''https://ketryx.example/'', project = Some ''KXPRJ'',
               api_key = Some ''key'', commit_sha = Some ''abc123'', version = Some ''1.0'' \<rparr>"

definition reporter_of :: "KetryxConfig \<Rightarrow> KetryxReporter" where
  "reporter_of c = \<lparr> config = c, base_url = ''https://ketryx.example'',
      headers = [(''Authorization'', ''Bearer key''), (''Content-Type'', ''application/json'')] \<rparr>"

definition reporter0 :: KetryxReporter where
  "reporter0 = reporter_of config0"

definition ok_response :: "nat \<Rightarrow> response" where
  "ok_response k =
     \<lparr> status_code = 200, resp_text = ''ok'',
       resp_json = Some [(''id'', if k = 0 then ''A0'' else if k = 1 then ''A1''
                                 else if k = 2 then ''A2'' else ''A3''),
                         (''buildId'', ''B1'')] \<rparr>"

definition test_build :: build where
  "test_build = \<lparr> build_name = ''ci-build'', build_type = ''test-results'',
      build_artifacts = Mapping [(''junit'', [''out/*.xml'']), (''cucumber'', [''out/*.json''])] \<rparr>"

definition sbom_build :: build where
  "sbom_build = \<lparr> build_name = ''sbom-build'', build_type = ''sbom'',
      build_artifacts = Sequence
        [\<lparr> artifact_file = ''sbom/cdx.json'', artifact_type = ''cyclonedx'' \<rparr>,
         \<lparr> artifact_file = ''sbom/spdx.json'', artifact_type = ''spdx'' \<rparr>] \<rparr>"

definition empty_sbom_build :: build where
  "empty_sbom_build = \<lparr> build_name = ''empty-sbom'', build_type = ''sbom'',
      build_artifacts = Sequence [] \<rparr>"

definition unknown_build :: build where
  "unknown_build = \<lparr> build_name = ''docs'', build_type = ''unknown-type'',
      build_artifacts = Mapping [] \<rparr>"

definition missing_build :: build where
  "missing_build = \<lparr> build_name = ''gone'', build_type = ''test-results'',
      build_artifacts = Mapping [(''junit'', [''none/*.xml'', ''out/*.xml'']),
                                 (''cucumber'', [''none/*.json''])] \<rparr>"

definition missing_sbom_build :: build where
  "missing_sbom_build = \<lparr> build_name = ''gone-sbom'', build_type = ''sbom'',
      build_artifacts = Sequence
        [\<lparr> artifact_file = ''none/sbom.json'', artifact_type = ''spdx'' \<rparr>] \<rparr>"

definition env0 :: env where
  "env0 = \<lparr>
     getenv = map_of [(''KETRYX_URL'', ''https://ketryx.example/''), (''KETRYX_PROJECT'', ''KXPRJ''),
                      (''KETRYX_API_KEY'', ''key''), (''KETRYX_VERSION'', ''1.0'')],
     glob = (\<lambda>p. if p = ''out/*.xml'' then [''out/a.xml'', ''out/b.xml'']
                  else if p = ''out/*.json'' then [''out/c.json'']
                  else if p = ''sbom/cdx.json'' then [''sbom/cdx.json'']
                  else if p = ''sbom/spdx.json'' then [''sbom/spdx.json'']
                  else []),
     readable = (\<lambda>p. True),
     yaml_file = (\<lambda>f. if f = ''tests.yaml'' then Inr (Doc_Mapping [(''builds'', [test_build])])
                  else if f = ''sbom.yaml'' then Inr (Doc_Mapping [(''builds'', [sbom_build])])
                  else if f = ''empty-sbom.yaml'' then Inr (Doc_Mapping [(''builds'', [empty_sbom_build, test_build])])
                  else if f = ''stale.yaml'' then Inr (Doc_Mapping [(''builds'', [test_build, empty_sbom_build])])
                  else if f = ''unknown.yaml'' then Inr (Doc_Mapping [(''builds'', [unknown_build, test_build])])
                  else if f = ''missing.yaml'' then Inr (Doc_Mapping [(''builds'', [missing_build, test_build, missing_sbom_build])])
                  else if f = ''nobuilds.yaml'' then Inr (Doc_Mapping [(''name'', [])])
                  else if f = ''empty.yaml'' then Inr Doc_None
                  else Inl (OSError f)),
     post = ok_response \<rparr>"

text \<open>
  A build of type \<open>sbom\<close> whose \<open>artifacts\<close> value is a mapping, and surroundings
  whose files hold it after a build with unmatched patterns, or hold a document that is
  not a mapping.
\<close>

definition ill_shaped_build :: build where
  "ill_shaped_build = \<lparr> build_name = ''bad-sbom'', build_type = ''sbom'',
      build_artifacts = Mapping [(''file'', [''sbom/cdx.json''])] \<rparr>"

definition env_odd :: env where
  "env_odd = env0 \<lparr> yaml_file := (\<lambda>f.
       if f = ''ill-shaped.yaml''
         then Inr (Doc_Mapping [(''builds'', [missing_build, ill_shaped_build])])
       else if f = ''text.yaml'' then Inr (Doc_String ''mybuilds'')
       else if f = ''number.yaml'' then Inr (Doc_Scalar True)
       else if f = ''list.yaml'' then Inr (Doc_Sequence [String_Item ''tests''])
       else Inl (OSError f)) \<rparr>"

text \<open>The same surroundings with a service that refuses the second request.\<close>

definition env_refusing :: env where
  "env_refusing = env0 \<lparr> post := (\<lambda>k. if k = 1
       then \<lparr> status_code = 500, resp_text = ''quota exceeded'', resp_json = None \<rparr>
       else ok_response k) \<rparr>"

definition config_commit :: KetryxConfig where
  "config_commit = config0 \<lparr> version := None \<rparr>"

definition config_neither :: KetryxConfig where
  "config_neither = config0 \<lparr> version := None, commit_sha := None \<rparr>"

text \<open>What \<open>main\<close> reads from the environment of \<open>env0\<close>, and the reporter built from it.\<close>

definition config_env0 :: KetryxConfig where
  "config_env0 = config0 \<lparr> commit_sha := None \<rparr>"

definition reporter_env0 :: KetryxReporter where
  "reporter_env0 = reporter_of config_env0"

definition env_no_version :: env where
  "env_no_version = env0 \<lparr> getenv := map_of
     [(''KETRYX_URL'', ''https://ketryx.example/''), (''KETRYX_PROJECT'', ''KXPRJ''),
      (''KETRYX_API_KEY'', ''key''), (''GITHUB_SHA'', ''abc123'')] \<rparr>"

definition env_no_url :: env where
  "env_no_url = env0 \<lparr> getenv := map_of
     [(''KETRYX_PROJECT'', ''KXPRJ''), (''KETRYX_API_KEY'', ''key''),
      (''KETRYX_VERSION'', ''1.0'')] \<rparr>"

text \<open>
  An upload job is a file with the content type it is posted with and the type tag of
  the artifact it yields. The jobs of a list of patterns are the matches of the
  patterns in the order given, each pattern's matches in the order \<open>glob\<close> lists them;
  the jobs of \<open>upload_test_results\<close> are those of the junit patterns, then those of the
  cucumber patterns.
\<close>

type_synonym job = "string \<times> string \<times> string"

definition jobs_of :: "env \<Rightarrow> string \<Rightarrow> string \<Rightarrow> string list \<Rightarrow> job list" where
  "jobs_of e ct ty ps = map (\<lambda>f. (f, ct, ty)) (concat (map (glob e) ps))"

definition test_result_jobs :: "env \<Rightarrow> string list \<Rightarrow> string list \<Rightarrow> job list" where
  "test_result_jobs e junit_paths cucumber_paths =
     jobs_of e ''application/xml'' ''junit-xml'' junit_paths @
     jobs_of e ''application/json'' ''cucumber-json'' cucumber_paths"



text \<open>One loop over a list of jobs, which the nested loops of the upload methods amount to.\<close>

fun upload_jobs ::
  "KetryxReporter \<Rightarrow> env \<Rightarrow> job list \<Rightarrow> dict list \<Rightarrow> trace \<Rightarrow> (error + dict list) \<times> trace" where
  "upload_jobs r e [] artifacts tr = (Inr artifacts, tr)"
| "upload_jobs r e (j # js) artifacts tr =
     (case upload_artifact r e (fst j) (fst (snd j)) tr of
        (Inl err, tr') \<Rightarrow> (Inl err, tr')
      | (Inr artifact_id, tr') \<Rightarrow>
          upload_jobs r e js (artifacts @ [artifact artifact_id (snd (snd j))]) tr')"

text \<open>
  The message of the exception raised for a request that is answered with a status
  other than 200, and the error a result carries.
\<close>

definition failure_message :: "event \<Rightarrow> string \<Rightarrow> string" where
  "failure_message ev body =
     (case ev of
        Upload _ \<Rightarrow> ''Failed to upload artifact: '' @ body
      | Report _ \<Rightarrow> ''Failed to report build: '' @ body
      | _ \<Rightarrow> [])"

definition error_of :: "error + 'a \<Rightarrow> error option" where
  "error_of res = (case res of Inl err \<Rightarrow> Some err | Inr _ \<Rightarrow> None)"

text \<open>
  Every request of the trace so far was answered with status 200. A request answered
  otherwise is the last request of the trace, and the error is its exception.
\<close>

definition all_accepted :: "env \<Rightarrow> trace \<Rightarrow> bool" where
  "all_accepted e tr = (\<forall>k<length (requests tr). status_code (post e k) = 200)"

definition refusal_ends :: "env \<Rightarrow> error option \<Rightarrow> trace \<Rightarrow> bool" where
  "refusal_ends e err tr =
     (\<forall>k<length (requests tr). status_code (post e k) \<noteq> 200 \<longrightarrow>
        Suc k = length (requests tr) \<and>
        err = Some (PyException (failure_message (requests tr ! k) (resp_text (post e k)))))"

definition sound :: "env \<Rightarrow> (error + 'a) \<times> trace \<Rightarrow> bool" where
  "sound e p = refusal_ends e (error_of (fst p)) (snd p)"

section \<open>Helper lemmas\<close>

lemma map_of_report_data:
  "map_of (report_data r e n as) k =
     (if k = ''version'' \<and> truthy (version (config r)) then Some (json_of (version (config r)))
      else if k = ''commitSha'' \<and> \<not> truthy (version (config r)) \<and> truthy (commit_sha (config r))
        then Some (json_of (commit_sha (config r)))
      else map_of [(''project'', json_of (project (config r))),
                  (''buildName'', JString n),
                  (''artifacts'', JArray (map JObject as)),
                  (''sourceUrl'', JString (getenv_default e ''GITHUB_SERVER_URL'')),
                  (''repositoryUrls'', JArray [JString
                     (getenv_default e ''GITHUB_SERVER_URL'' @ ''/'' @
                      getenv_default e ''GITHUB_REPOSITORY'')])] k)"
  by (simp add: report_data_def Let_def update_conv')

lemma report_build_trace:
  "snd (report_build r e n as tr) =
     tr @ [Report \<lparr> report_url = base_url r @ ''/api/v1/builds'', report_headers = headers r,
                     report_json = report_data r e n as \<rparr>]"
  by (simp add: report_build_def Let_def split: option.splits)

subsection \<open>The loader\<close>

lemma scan_patterns_eq:
  "scan_patterns e label ps missing_files =
     missing_files @ map (\<lambda>lp. fst lp @ snd lp) (filter (unmatched e) (map (Pair label) ps))"
  by (induction ps arbitrary: missing_files) (simp_all add: unmatched_def)

lemma scan_sbom_eq:
  "scan_sbom e as missing_files =
     missing_files @ map (\<lambda>lp. fst lp @ snd lp)
       (filter (unmatched e) (map (\<lambda>a. (''SBOM file not found: '', artifact_file a)) as))"
  by (induction as arbitrary: missing_files) (simp_all add: unmatched_def)

lemma missing_entries_Cons:
  "missing_entries e (b # bs) =
     map (\<lambda>lp. fst lp @ snd lp) (filter (unmatched e) (labelled_patterns b)) @ missing_entries e bs"
  by (simp add: missing_entries_def)

lemma scan_builds_Cons:
  assumes "well_shaped b"
    and IH: "\<And>mf. scan_builds e bs mf = Inr (mf @ missing_entries e bs)"
  shows "scan_builds e (b # bs) mf = Inr (mf @ missing_entries e (b # bs))"
proof (cases "build_artifacts b")
  case (Mapping m)
  show ?thesis
  proof (cases "build_type b = ''test-results''")
    case True
    then show ?thesis using Mapping
      by (simp add: IH scan_patterns_eq missing_entries_Cons labelled_patterns_def)
  next
    case False
    moreover from False Mapping assms(1) have "build_type b \<noteq> ''sbom''"
      by (simp add: well_shaped_def split: if_splits)
    ultimately show ?thesis using Mapping
      by (simp add: IH missing_entries_Cons labelled_patterns_def)
  qed
next
  case (Sequence as)
  show ?thesis
  proof (cases "build_type b = ''sbom''")
    case True
    moreover from True Sequence assms(1) have "build_type b \<noteq> ''test-results''"
      by (simp add: well_shaped_def split: if_splits)
    ultimately show ?thesis using Sequence
      by (simp add: IH scan_sbom_eq missing_entries_Cons labelled_patterns_def)
  next
    case False
    moreover from False Sequence assms(1) have "build_type b \<noteq> ''test-results''"
      by (simp add: well_shaped_def split: if_splits)
    ultimately show ?thesis using Sequence
      by (simp add: IH missing_entries_Cons labelled_patterns_def)
  qed
qed

lemma scan_builds_eq:
  "list_all well_shaped builds \<Longrightarrow>
     scan_builds e builds missing_files = Inr (missing_files @ missing_entries e builds)"
proof (induction builds arbitrary: missing_files)
  case Nil
  then show ?case by (simp add: missing_entries_def)
next
  case (Cons b bs)
  from Cons.prems have "well_shaped b" and "list_all well_shaped bs" by simp_all
  then show ?case using Cons.IH by (intro scan_builds_Cons)
qed

lemma missing_entries_nonempty:
  assumes "b \<in> set builds" and "lp \<in> set (labelled_patterns b)" and "glob e (snd lp) = []"
  shows "missing_entries e builds \<noteq> []"
proof -
  have "lp \<in> set (filter (unmatched e) (concat (map labelled_patterns builds)))"
    using assms by (auto simp add: unmatched_def)
  then show ?thesis
    unfolding missing_entries_def by (metis empty_iff list.set(1) map_is_Nil_conv)
qed

lemma requests_prints:
  "requests (tr @ Print h # map (\<lambda>m. Print (f m)) ms) = requests tr"
  by (induction ms) (simp_all add: requests_def)

lemma process_build_config_requests:
  "requests (snd (process_build_config e f tr)) = requests tr"
  by (auto simp add: process_build_config_def requests_prints split: sum.splits bool.splits)

subsection \<open>Evaluating a run\<close>

lemmas run_defs =
  main_def main_config_def init_reporter_def main_try_def process_build_config_def
  main_build_def main_report_def upload_test_results_def upload_sbom_def upload_artifact_def
  report_build_def requests_def truthy_def fmt_def rstrip_slash_def get_list_def
  basename_def Let_def

lemmas env0_defs =
  env0_def ok_response_def test_build_def sbom_build_def empty_sbom_build_def
  unknown_build_def missing_build_def missing_sbom_build_def
  config_env0_def config0_def reporter_env0_def reporter_of_def

subsection \<open>The upload loops\<close>



lemma upload_files_jobs:
  "upload_files r e ct ty fs artifacts tr =
     upload_jobs r e (map (\<lambda>f. (f, ct, ty)) fs) artifacts tr"
  by (induction fs arbitrary: artifacts tr) (simp_all split: prod.splits sum.splits)

lemma upload_jobs_append:
  "upload_jobs r e (xs @ ys) artifacts tr =
     (case upload_jobs r e xs artifacts tr of
        (Inl err, tr') \<Rightarrow> (Inl err, tr')
      | (Inr artifacts', tr') \<Rightarrow> upload_jobs r e ys artifacts' tr')"
  by (induction xs arbitrary: artifacts tr) (simp_all split: prod.splits sum.splits)

lemma upload_patterns_jobs:
  "upload_patterns r e ct ty ps artifacts tr = upload_jobs r e (jobs_of e ct ty ps) artifacts tr"
proof (induction ps arbitrary: artifacts tr)
  case Nil
  then show ?case by (simp add: jobs_of_def)
next
  case (Cons p ps)
  have "jobs_of e ct ty (p # ps) = map (\<lambda>f. (f, ct, ty)) (glob e p) @ jobs_of e ct ty ps"
    by (simp add: jobs_of_def)
  then show ?case
    by (simp add: upload_jobs_append upload_files_jobs Cons.IH split: prod.splits sum.splits)
qed

lemma upload_test_results_jobs:
  "upload_test_results r e junit_paths cucumber_paths tr =
     upload_jobs r e (test_result_jobs e junit_paths cucumber_paths) [] tr"
  by (simp add: upload_test_results_def test_result_jobs_def upload_jobs_append
        upload_patterns_jobs split: prod.splits sum.splits)






subsection \<open>A refused request ends the run\<close>

lemma sound_accepted: "all_accepted e tr \<Longrightarrow> sound e (res, tr)"
  by (simp add: sound_def refusal_ends_def all_accepted_def)

lemma sound_Inr: "sound e (Inr v, tr) \<Longrightarrow> all_accepted e tr"
  by (auto simp add: sound_def refusal_ends_def all_accepted_def error_of_def)

lemma sound_Print: "sound e (res, tr) \<Longrightarrow> sound e (res, tr @ [Print s])"
  by (simp add: sound_def refusal_ends_def requests_def)

lemma sound_Print_Error: "sound e (res, tr) \<Longrightarrow> sound e (res, tr @ [Print_Error s])"
  by (simp add: sound_def refusal_ends_def requests_def)

lemma sound_request:
  assumes "all_accepted e tr" and "is_request ev"
    and "status_code (post e (length (requests tr))) \<noteq> 200 \<Longrightarrow>
           res = Inl (PyException (failure_message ev (resp_text (post e (length (requests tr))))))"
  shows "sound e (res, tr @ [ev])"
  unfolding sound_def refusal_ends_def
proof (intro allI impI)
  fix k
  assume k: "k < length (requests (snd (res, tr @ [ev])))"
    and s: "status_code (post e k) \<noteq> 200"
  from assms(2) have len: "requests (tr @ [ev]) = requests tr @ [ev]"
    by (simp add: requests_def)
  from k len have "k \<le> length (requests tr)" by simp
  moreover from assms(1) s have "\<not> k < length (requests tr)"
    by (auto simp add: all_accepted_def)
  ultimately have keq: "k = length (requests tr)" by simp
  with assms(3) s len
  show "Suc k = length (requests (snd (res, tr @ [ev]))) \<and>
        error_of (fst (res, tr @ [ev])) =
          Some (PyException (failure_message (requests (snd (res, tr @ [ev])) ! k)
                 (resp_text (post e k))))"
    by (simp add: error_of_def)
qed

lemma sound_upload_artifact:
  assumes "all_accepted e tr"
  shows "sound e (upload_artifact r e f ct tr)"
proof (cases "readable e f \<and> map_of (headers r) ''Authorization'' \<noteq> None")
  case False
  then have "snd (upload_artifact r e f ct tr) = tr"
    by (auto simp add: upload_artifact_def)
  then show ?thesis using sound_accepted [OF assms, of "fst (upload_artifact r e f ct tr)"]
    by (metis prod.collapse)
next
  case True
  then obtain auth where auth: "map_of (headers r) ''Authorization'' = Some auth" by auto
  let ?ev = "Upload (upload_request_of r auth f ct)"
  let ?resp = "post e (length (requests tr))"
  have tr: "snd (upload_artifact r e f ct tr) = tr @ [?ev]"
    using True auth
    by (simp add: upload_artifact_def upload_request_of_def Let_def split: option.splits)
  have "fst (upload_artifact r e f ct tr) =
          Inl (PyException (failure_message ?ev (resp_text ?resp)))"
    if "status_code ?resp \<noteq> 200"
    using True auth that
    by (simp add: upload_artifact_def failure_message_def Let_def)
  with sound_request [OF assms, of ?ev "fst (upload_artifact r e f ct tr)"]
  have "sound e (fst (upload_artifact r e f ct tr), tr @ [?ev])" by simp
  then show ?thesis using tr by (metis prod.collapse)
qed

lemma sound_report_build:
  assumes "all_accepted e tr"
  shows "sound e (report_build r e n as tr)"
proof -
  let ?ev = "Report \<lparr> report_url = base_url r @ ''/api/v1/builds'', report_headers = headers r,
                     report_json = report_data r e n as \<rparr>"
  let ?resp = "post e (length (requests tr))"
  have tr: "snd (report_build r e n as tr) = tr @ [?ev]"
    by (rule report_build_trace)
  have "fst (report_build r e n as tr) =
          Inl (PyException (failure_message ?ev (resp_text ?resp)))"
    if "status_code ?resp \<noteq> 200"
    using that by (simp add: report_build_def failure_message_def Let_def)
  with sound_request [OF assms, of ?ev "fst (report_build r e n as tr)"]
  have "sound e (fst (report_build r e n as tr), tr @ [?ev])" by simp
  then show ?thesis using tr by (metis prod.collapse)
qed

lemma sound_upload_jobs:
  "all_accepted e tr \<Longrightarrow> sound e (upload_jobs r e jobs artifacts tr)"
proof (induction jobs arbitrary: artifacts tr)
  case Nil
  then show ?case by (simp add: sound_accepted)
next
  case (Cons j js)
  obtain res tr' where u: "upload_artifact r e (fst j) (fst (snd j)) tr = (res, tr')"
    by (cases "upload_artifact r e (fst j) (fst (snd j)) tr")
  with sound_upload_artifact [OF Cons.prems, of r "fst j" "fst (snd j)"]
  have s: "sound e (res, tr')" by simp
  show ?case
  proof (cases res)
    case (Inl err)
    with u s show ?thesis by (simp add: sound_def error_of_def)
  next
    case (Inr i)
    with s have "all_accepted e tr'" by (simp add: sound_Inr)
    from Cons.IH [OF this] u Inr show ?thesis by simp
  qed
qed

lemma sound_upload_test_results:
  "all_accepted e tr \<Longrightarrow> sound e (upload_test_results r e junit_paths cucumber_paths tr)"
  by (simp add: upload_test_results_jobs sound_upload_jobs)

lemma sound_upload_sbom:
  "all_accepted e tr \<Longrightarrow> sound e (upload_sbom r e sbom_paths sbom_type tr)"
  by (simp add: upload_sbom_def upload_patterns_jobs sound_upload_jobs)

lemma sound_main_sbom:
  "all_accepted e tr \<Longrightarrow> sound e (main_sbom r e as artifacts tr)"
proof (induction as arbitrary: artifacts tr)
  case Nil
  then show ?case by (simp add: sound_accepted)
next
  case (Cons a as)
  obtain res tr' where u: "upload_sbom r e [artifact_file a] (artifact_type a) tr = (res, tr')"
    by (cases "upload_sbom r e [artifact_file a] (artifact_type a) tr")
  with sound_upload_sbom [OF Cons.prems, of r "[artifact_file a]" "artifact_type a"]
  have s: "sound e (res, tr')" by simp
  show ?case
  proof (cases res)
    case (Inl err)
    with u s show ?thesis by (simp add: sound_def error_of_def)
  next
    case (Inr i)
    with s have "all_accepted e tr'" by (simp add: sound_Inr)
    from Cons.IH [OF this] u Inr show ?thesis by simp
  qed
qed

lemma sound_main_report:
  assumes "all_accepted e tr"
  shows "sound e (main_report r e b artifacts tr)"
proof (cases artifacts)
  case None
  then show ?thesis using assms by (simp add: main_report_def sound_accepted)
next
  case (Some as)
  obtain res tr' where u: "report_build r e (build_name b) as tr = (res, tr')"
    by (cases "report_build r e (build_name b) as tr")
  with sound_report_build [OF assms, of r "build_name b" as]
  have s: "sound e (res, tr')" by simp
  show ?thesis
  proof (cases res)
    case (Inl err)
    with u s Some show ?thesis by (simp add: main_report_def sound_def error_of_def)
  next
    case (Inr body)
    with s have "all_accepted e tr'" by (simp add: sound_Inr)
    then have "sound e (Inr artifacts :: error + dict list option, tr')" by (rule sound_accepted)
    then show ?thesis using u Inr Some by (simp add: main_report_def sound_Print)
  qed
qed

lemma sound_main_build:
  assumes "all_accepted e tr"
  shows "sound e (main_build r e b artifacts tr)"
proof (cases "build_type b = ''test-results''")
  case True
  show ?thesis
  proof (cases "build_artifacts b")
    case (Sequence as)
    with True assms show ?thesis by (simp add: main_build_def sound_accepted)
  next
    case (Mapping m)
    obtain res tr' where u:
      "upload_test_results r e (get_list m ''junit'') (get_list m ''cucumber'') tr = (res, tr')"
      by (cases "upload_test_results r e (get_list m ''junit'') (get_list m ''cucumber'') tr")
    with sound_upload_test_results [OF assms, of r "get_list m ''junit''" "get_list m ''cucumber''"]
    have s: "sound e (res, tr')" by simp
    show ?thesis
    proof (cases res)
      case (Inl err)
      with u s True Mapping show ?thesis by (simp add: main_build_def sound_def error_of_def)
    next
      case (Inr as)
      with s have "all_accepted e tr'" by (simp add: sound_Inr)
      then show ?thesis using u Inr True Mapping by (simp add: main_build_def sound_main_report)
    qed
  qed
next
  case False
  show ?thesis
  proof (cases "build_type b = ''sbom''")
    case no: False
    with False assms show ?thesis by (simp add: main_build_def sound_accepted sound_Print)
  next
    case True
    show ?thesis
    proof (cases "build_artifacts b")
      case (Mapping m)
      with True False assms show ?thesis
        by (simp add: main_build_def sound_accepted sound_main_report)
    next
      case (Sequence as)
      obtain res tr' where u: "main_sbom r e as artifacts tr = (res, tr')"
        by (cases "main_sbom r e as artifacts tr")
      with sound_main_sbom [OF assms, of r as artifacts]
      have s: "sound e (res, tr')" by simp
      show ?thesis
      proof (cases res)
        case (Inl err)
        with u s True False Sequence show ?thesis
          by (simp add: main_build_def sound_def error_of_def)
      next
        case (Inr as')
        with s have "all_accepted e tr'" by (simp add: sound_Inr)
        then show ?thesis using u Inr True False Sequence
          by (simp add: main_build_def sound_main_report)
      qed
    qed
  qed
qed

lemma sound_main_builds:
  "all_accepted e tr \<Longrightarrow> sound e (main_builds r e bs artifacts tr)"
proof (induction bs arbitrary: artifacts tr)
  case Nil
  then show ?case by (simp add: sound_accepted)
next
  case (Cons b bs)
  obtain res tr' where u: "main_build r e b artifacts tr = (res, tr')"
    by (cases "main_build r e b artifacts tr")
  with sound_main_build [OF Cons.prems, of r b artifacts]
  have s: "sound e (res, tr')" by simp
  show ?case
  proof (cases res)
    case (Inl err)
    with u s show ?thesis by (simp add: sound_def error_of_def)
  next
    case (Inr i)
    with s have "all_accepted e tr'" by (simp add: sound_Inr)
    from Cons.IH [OF this] u Inr show ?thesis by simp
  qed
qed

lemma sound_main_try:
  assumes "all_accepted e tr"
  shows "sound e (main_try r e config_file tr)"
proof -
  obtain res tr' where u: "process_build_config e config_file tr = (res, tr')"
    by (cases "process_build_config e config_file tr")
  with process_build_config_requests [of e config_file tr]
  have "requests tr' = requests tr" by simp
  with assms have a: "all_accepted e tr'" by (simp add: all_accepted_def)
  show ?thesis
  proof (cases res)
    case (Inl err)
    with u a show ?thesis by (simp add: main_try_def sound_accepted)
  next
    case (Inr builds)
    with u a show ?thesis by (simp add: main_try_def sound_main_builds)
  qed
qed

lemma all_accepted_Nil: "all_accepted e []"
  by (simp add: all_accepted_def requests_def)

lemma sound_main: "sound e (main e config_file)"
proof (cases "main_config e")
  case (Inl err)
  then show ?thesis by (simp add: main_def sound_accepted all_accepted_Nil)
next
  case (Inr c)
  show ?thesis
  proof (cases "init_reporter c")
    case (Inl err)
    with Inr show ?thesis by (simp add: main_def sound_accepted all_accepted_Nil)
  next
    case r: (Inr reporter)
    obtain res tr where u: "main_try reporter e config_file [] = (res, tr)"
      by (cases "main_try reporter e config_file []")
    with sound_main_try [OF all_accepted_Nil, of e reporter config_file]
    have s: "sound e (res, tr)" by simp
    show ?thesis
    proof (cases res)
      case (Inl err)
      from s have "sound e (res, tr @ [Print_Error err])" by (rule sound_Print_Error)
      with s u Inr r Inl show ?thesis by (simp add: main_def)
    next
      case v: (Inr v)
      with s u Inr r show ?thesis by (simp add: main_def)
    qed
  qed
qed

lemma main_error_line:
  assumes "fst (main e config_file) = Inl err" and "is_Exception err"
    and "requests (snd (main e config_file)) \<noteq> []"
  shows "\<exists>tr. snd (main e config_file) = tr @ [Print_Error err]"
proof (cases "main_config e")
  case (Inl x)
  with assms(3) show ?thesis by (simp add: main_def requests_def)
next
  case (Inr c)
  show ?thesis
  proof (cases "init_reporter c")
    case (Inl x)
    with Inr assms(3) show ?thesis by (simp add: main_def requests_def)
  next
    case r: (Inr reporter)
    obtain res tr where u: "main_try reporter e config_file [] = (res, tr)"
      by (cases "main_try reporter e config_file []")
    with Inr r assms(1) have "res = Inl err" by (cases res) (simp_all add: main_def)
    with u Inr r assms(2) have "snd (main e config_file) = tr @ [Print_Error err]"
      by (simp add: main_def)
    then show ?thesis by blast
  qed
qed

lemmas env_refusing_defs = env_refusing_def env0_defs

section \<open>Properties\<close>

text \<open>
  C3. The body of a build report carries the version or the commit, never both. A
  field counts as present when it is set to a non-empty string, which is what the code
  tests. If the version is present the body has \<open>version\<close> (its value) and no
  \<open>commitSha\<close>, also when a commit is present; if the version is absent and the commit
  is present it has \<open>commitSha\<close> and no \<open>version\<close>; if both are absent it has neither.
  The request that \<open>report_build\<close> posts carries exactly this body.
\<close>

theorem C3_version_takes_precedence:
  "(truthy (version (config r)) \<longrightarrow>
      map_of (report_data r e n as) ''version'' = Some (json_of (version (config r))) \<and>
      map_of (report_data r e n as) ''commitSha'' = None) \<and>
   (\<not> truthy (version (config r)) \<and> truthy (commit_sha (config r)) \<longrightarrow>
      map_of (report_data r e n as) ''commitSha'' = Some (json_of (commit_sha (config r))) \<and>
      map_of (report_data r e n as) ''version'' = None) \<and>
   (\<not> truthy (version (config r)) \<and> \<not> truthy (commit_sha (config r)) \<longrightarrow>
      map_of (report_data r e n as) ''version'' = None \<and>
      map_of (report_data r e n as) ''commitSha'' = None) \<and>
   snd (report_build r e n as tr) =
     tr @ [Report \<lparr> report_url = base_url r @ ''/api/v1/builds'', report_headers = headers r,
                     report_json = report_data r e n as \<rparr>]"
  by (simp add: map_of_report_data report_build_trace)

theorem C3_version_takes_precedence_witness:
  "truthy (version (config reporter0)) \<and> truthy (commit_sha (config reporter0)) \<and>
   map_of (report_data reporter0 env0 ''ci-build'' []) ''version'' = Some (JString ''1.0'') \<and>
   map_of (report_data reporter0 env0 ''ci-build'' []) ''commitSha'' = None \<and>
   \<not> truthy (version (config (reporter_of config_commit))) \<and>
   truthy (commit_sha (config (reporter_of config_commit))) \<and>
   map_of (report_data (reporter_of config_commit) env0 ''ci-build'' []) ''commitSha'' =
     Some (JString ''abc123'') \<and>
   map_of (report_data (reporter_of config_commit) env0 ''ci-build'' []) ''version'' = None \<and>
   \<not> truthy (version (config (reporter_of config_neither))) \<and>
   \<not> truthy (commit_sha (config (reporter_of config_neither))) \<and>
   map_of (report_data (reporter_of config_neither) env0 ''ci-build'' []) ''version'' = None \<and>
   map_of (report_data (reporter_of config_neither) env0 ''ci-build'' []) ''commitSha'' = None"
  using C3_version_takes_precedence [of reporter0 env0 "''ci-build''" "[]" "[]"]
        C3_version_takes_precedence [of "reporter_of config_commit" env0 "''ci-build''" "[]" "[]"]
        C3_version_takes_precedence [of "reporter_of config_neither" env0 "''ci-build''" "[]" "[]"]
  by (simp add: reporter0_def reporter_of_def config0_def config_commit_def config_neither_def
        truthy_def json_of_def)






text \<open>
  C8. The check at the start of \<open>main\<close> raises the \<open>ValueError\<close> for missing
  environment variables when the project, the API key or the version is missing (unset,
  or set to the empty string), and then \<open>main\<close> ends with that error before anything is
  printed or posted. When the three are present the check passes and yields the
  configuration read from the environment, whatever \<open>KETRYX_URL\<close> and \<open>GITHUB_SHA\<close>
  are.
\<close>

theorem C8_startup_check:
  "(\<not> truthy (getenv e ''KETRYX_PROJECT'') \<or> \<not> truthy (getenv e ''KETRYX_API_KEY'') \<or>
    \<not> truthy (getenv e ''KETRYX_VERSION'') \<longrightarrow>
      main_config e = Inl (ValueError ''Missing required environment variables'') \<and>
      main e config_file = (Inl (ValueError ''Missing required environment variables''), [])) \<and>
   (truthy (getenv e ''KETRYX_PROJECT'') \<and> truthy (getenv e ''KETRYX_API_KEY'') \<and>
    truthy (getenv e ''KETRYX_VERSION'') \<longrightarrow>
      main_config e = Inr \<lparr> ketryx_url = getenv e ''KETRYX_URL'',
                 project = getenv e ''KETRYX_PROJECT'',
                 api_key = getenv e ''KETRYX_API_KEY'',
                 commit_sha = getenv e ''GITHUB_SHA'',
                 version = getenv e ''KETRYX_VERSION'' \<rparr>)"
  by (auto simp add: main_config_def main_def Let_def)

theorem C8_startup_check_witness:
  "getenv env_no_version ''KETRYX_VERSION'' = None \<and>
   main env_no_version ''tests.yaml'' =
     (Inl (ValueError ''Missing required environment variables''), []) \<and>
   getenv env_no_url ''KETRYX_URL'' = None \<and> getenv env_no_url ''GITHUB_SHA'' = None \<and>
   truthy (getenv env_no_url ''KETRYX_PROJECT'') \<and> truthy (getenv env_no_url ''KETRYX_API_KEY'') \<and>
   truthy (getenv env_no_url ''KETRYX_VERSION'') \<and>
   main_config env_no_url = Inr \<lparr> ketryx_url = None, project = Some ''KXPRJ'',
     api_key = Some ''key'', commit_sha = None, version = Some ''1.0'' \<rparr>"
  using C8_startup_check [of env_no_version "''tests.yaml''"]
        C8_startup_check [of env_no_url "''tests.yaml''"]
  by (simp add: env_no_version_def env_no_url_def env0_def truthy_def)

text \<open>
  C9. With \<open>GITHUB_SERVER_URL\<close> and \<open>GITHUB_REPOSITORY\<close> both unset,
  \<open>report_build\<close> still builds the record and posts it: the source URL is the empty
  string, and the list of repository URLs has the one entry \<open>/\<close>, the separator between
  the two empty parts. The call returns the body of the answer when the service answers
  200 with a JSON body.
\<close>

theorem C9_unset_github_variables:
  assumes "getenv e ''GITHUB_SERVER_URL'' = None" and "getenv e ''GITHUB_REPOSITORY'' = None"
  shows "snd (report_build r e n as tr) =
           tr @ [Report \<lparr> report_url = base_url r @ ''/api/v1/builds'',
                           report_headers = headers r, report_json = report_data r e n as \<rparr>] \<and>
         map_of (report_data r e n as) ''sourceUrl'' = Some (JString []) \<and>
         map_of (report_data r e n as) ''repositoryUrls'' = Some (JArray [JString ''/'']) \<and>
         (status_code (post e (length (requests tr))) = 200 \<and>
          resp_json (post e (length (requests tr))) = Some body \<longrightarrow>
            fst (report_build r e n as tr) = Inr body)"
  using assms
  by (simp add: map_of_report_data report_build_trace getenv_default_def)
     (simp add: report_build_def Let_def)

theorem C9_unset_github_variables_witness:
  "getenv env0 ''GITHUB_SERVER_URL'' = None \<and> getenv env0 ''GITHUB_REPOSITORY'' = None \<and>
   status_code (post env0 0) = 200 \<and>
   resp_json (post env0 0) = Some [(''id'', ''A0''), (''buildId'', ''B1'')] \<and>
   fst (report_build reporter0 env0 ''ci-build'' [] []) = Inr [(''id'', ''A0''), (''buildId'', ''B1'')] \<and>
   map_of (report_data reporter0 env0 ''ci-build'' []) ''repositoryUrls'' =
     Some (JArray [JString ''/''])"
  using C9_unset_github_variables [of env0 reporter0 "''ci-build''" "[]" "[]"
          "[(''id'', ''A0''), (''buildId'', ''B1'')]"]
  by (simp add: env0_def ok_response_def requests_def)

text \<open>
  C9. With both variables unset the repository URL entry of the record is not the empty
  string.
\<close>

theorem C9_repository_url_not_empty:
  "getenv env0 ''GITHUB_SERVER_URL'' = None \<and> getenv env0 ''GITHUB_REPOSITORY'' = None \<and>
   map_of (report_data reporter0 env0 ''ci-build'' []) ''repositoryUrls'' \<noteq>
     Some (JArray [JString []])"
  by (simp add: env0_def map_of_report_data getenv_default_def)

text \<open>
  C2. Take a document that is a mapping with a \<open>builds\<close> list in which every build
  is well shaped (its \<open>artifacts\<close> value is a mapping for test results and a sequence of
  entries for an sbom) and some pattern of some build matches no file. Then \<open>process_build_config\<close> prints the header and one
  line for every pattern of every build that matches no file (\<open>missing_entries\<close>, in
  document order, not only the first), and ends with \<open>SystemExit 1\<close>. It posts nothing,
  and \<open>main\<close> ends there: its whole trace is these lines, with no request in it.
\<close>

theorem C2_all_missing_files_reported:
  assumes "yaml_file e config_file = Inr (Doc_Mapping d)"
    and "map_of d ''builds'' = Some builds"
    and "list_all well_shaped builds"
    and "b \<in> set builds" and "lp \<in> set (labelled_patterns b)" and "glob e (snd lp) = []"
  shows "process_build_config e config_file tr =
           (Inl (SystemExit 1),
            tr @ Print missing_header #
                 map (\<lambda>file. Print (''  - '' @ file)) (missing_entries e builds)) \<and>
         fst lp @ snd lp \<in> set (missing_entries e builds) \<and>
         requests (snd (process_build_config e config_file tr)) = requests tr \<and>
         (main_config e = Inr c \<and> init_reporter c = Inr r \<longrightarrow>
            main e config_file =
              (Inl (SystemExit 1),
               Print missing_header #
                 map (\<lambda>file. Print (''  - '' @ file)) (missing_entries e builds)) \<and>
            requests (snd (main e config_file)) = [])"
proof -
  have d: "d \<noteq> []" using assms(2) by auto
  have ne: "missing_entries e builds \<noteq> []"
    using assms(4-6) by (rule missing_entries_nonempty)
  have p: "process_build_config e config_file tr =
           (Inl (SystemExit 1),
            tr @ Print missing_header #
                 map (\<lambda>file. Print (''  - '' @ file)) (missing_entries e builds))" for tr
    using assms(1-3) d ne by (simp add: process_build_config_def scan_builds_eq)
  have "lp \<in> set (filter (unmatched e) (concat (map labelled_patterns builds)))"
    using assms(4-6) by (auto simp add: unmatched_def)
  then have i: "fst lp @ snd lp \<in> set (missing_entries e builds)"
    unfolding missing_entries_def by (metis (mono_tags, lifting) image_eqI set_map)
  have m: "main e config_file =
              (Inl (SystemExit 1),
               Print missing_header #
                 map (\<lambda>file. Print (''  - '' @ file)) (missing_entries e builds))"
    if "main_config e = Inr c" "init_reporter c = Inr r"
    using that by (simp add: main_def main_try_def p)
  have "requests (snd (main e config_file)) = []"
    if "main_config e = Inr c" "init_reporter c = Inr r"
    using requests_prints [of "[]" missing_header "\<lambda>file. ''  - '' @ file" "missing_entries e builds"]
    by (simp add: m [OF that] requests_def)
  moreover have "requests (snd (process_build_config e config_file tr)) = requests tr"
    by (rule process_build_config_requests)
  ultimately show ?thesis using p i m by blast
qed

theorem C2_all_missing_files_reported_witness:
  "yaml_file env0 ''missing.yaml'' =
     Inr (Doc_Mapping [(''builds'', [missing_build, test_build, missing_sbom_build])]) \<and>
   list_all well_shaped [missing_build, test_build, missing_sbom_build] \<and>
   (''SBOM file not found: '', ''none/sbom.json'') \<in> set (labelled_patterns missing_sbom_build) \<and>
   glob env0 ''none/sbom.json'' = [] \<and>
   main_config env0 = Inr config_env0 \<and> init_reporter config_env0 = Inr reporter_env0 \<and>
   main env0 ''missing.yaml'' =
     (Inl (SystemExit 1),
      [Print missing_header,
       Print ''  - JUnit file not found: none/*.xml'',
       Print ''  - Cucumber file not found: none/*.json'',
       Print ''  - SBOM file not found: none/sbom.json''])"
  using C2_all_missing_files_reported [of env0 "''missing.yaml''"
          "[(''builds'', [missing_build, test_build, missing_sbom_build])]"
          "[missing_build, test_build, missing_sbom_build]" missing_sbom_build
          "(''SBOM file not found: '', ''none/sbom.json'')" "[]" config_env0 reporter_env0]
  by (simp add: env0_def main_config_def init_reporter_def config_env0_def config0_def
        reporter_env0_def reporter_of_def truthy_def fmt_def rstrip_slash_def
        missing_entries_def labelled_patterns_def unmatched_def well_shaped_def get_list_def
        missing_build_def test_build_def missing_sbom_build_def)

text \<open>
  C2. Without the condition on the shape the list is not always reported: here the first
  build has patterns that match no file and the second is an sbom build whose
  \<open>artifacts\<close> value is a mapping; the scan ends in a \<open>TypeError\<close> at the second build
  and nothing is printed.
\<close>

theorem C2_ill_shaped_build_ends_scan:
  "yaml_file env_odd ''ill-shaped.yaml'' =
     Inr (Doc_Mapping [(''builds'', [missing_build, ill_shaped_build])]) \<and>
   (''JUnit file not found: '', ''none/*.xml'') \<in> set (labelled_patterns missing_build) \<and>
   glob env_odd ''none/*.xml'' = [] \<and>
   process_build_config env_odd ''ill-shaped.yaml'' [] = (Inl TypeError, []) \<and>
   main env_odd ''ill-shaped.yaml'' = (Inl TypeError, [Print_Error TypeError])"
  by (simp add: env_odd_def env0_def process_build_config_def main_def main_try_def
        main_config_def init_reporter_def truthy_def labelled_patterns_def get_list_def
        missing_build_def ill_shaped_build_def)

text \<open>
  C1. One report per build with all its artifacts holds for test results, not for an
  sbom build with several entries: the loop over the entries assigns \<open>artifacts\<close> anew
  for each entry. In the run below both files of the build are uploaded (answers
  \<open>A0\<close> and \<open>A1\<close>), and the one report of the build lists only the artifact of the
  last entry; the artifact \<open>A0\<close> of the first entry is in no report.
\<close>

theorem C1_sbom_report_keeps_last_entry_only:
  "main env0 ''sbom.yaml'' =
     (Inr (),
      [Upload (upload_request_of reporter_env0 ''Bearer key'' ''sbom/cdx.json'' ''application/json''),
       Upload (upload_request_of reporter_env0 ''Bearer key'' ''sbom/spdx.json'' ''application/json''),
       Report \<lparr> report_url = ''https://ketryx.example/api/v1/builds'',
                 report_headers = headers reporter_env0,
                 report_json = report_data reporter_env0 env0 ''sbom-build''
                                 [artifact ''A1'' ''spdx-json''] \<rparr>,
       Print ''Reported sbom-build to Ketryx: B1''])"
  by (simp add: run_defs env0_defs upload_request_of_def)

text \<open>
  C10. A build of type \<open>sbom\<close> whose \<open>artifacts\<close> is the empty sequence is well shaped
  and has no pattern, so the loader passes over it. In \<open>main\<close> its loop over the entries
  assigns nothing: as the first build it reaches the report with \<open>artifacts\<close> unassigned
  and the run ends with \<open>UnboundLocalError\<close> before any request is posted; after another
  build it reports the artifacts that build left in the variable.
\<close>

theorem C10_empty_sbom_unbound_artifacts:
  assumes "build_type b = ''sbom''" and "build_artifacts b = Sequence []"
  shows "well_shaped b \<and> labelled_patterns b = [] \<and>
         scan_builds e (b # bs) missing_files = scan_builds e bs missing_files \<and>
         main_builds r e (b # bs) None tr = (Inl (UnboundLocalError ''artifacts''), tr) \<and>
         main_build r e b (Some as) tr = main_report r e b (Some as) tr \<and>
         (main_config e = Inr c \<and> init_reporter c = Inr r \<and>
          process_build_config e config_file [] = (Inr (b # bs), []) \<longrightarrow>
            main e config_file =
              (Inl (UnboundLocalError ''artifacts''),
               [Print_Error (UnboundLocalError ''artifacts'')]))"
  using assms
  by (simp add: well_shaped_def labelled_patterns_def main_build_def main_report_def
        main_def main_try_def)

theorem C10_empty_sbom_unbound_artifacts_witness:
  "build_type empty_sbom_build = ''sbom'' \<and> build_artifacts empty_sbom_build = Sequence [] \<and>
   main_config env0 = Inr config_env0 \<and> init_reporter config_env0 = Inr reporter_env0 \<and>
   process_build_config env0 ''empty-sbom.yaml'' [] = (Inr [empty_sbom_build, test_build], []) \<and>
   main env0 ''empty-sbom.yaml'' =
     (Inl (UnboundLocalError ''artifacts''), [Print_Error (UnboundLocalError ''artifacts'')]) \<and>
   main env0 ''stale.yaml'' =
     (Inr (),
      [Upload (upload_request_of reporter_env0 ''Bearer key'' ''out/a.xml'' ''application/xml''),
       Upload (upload_request_of reporter_env0 ''Bearer key'' ''out/b.xml'' ''application/xml''),
       Upload (upload_request_of reporter_env0 ''Bearer key'' ''out/c.json'' ''application/json''),
       Report \<lparr> report_url = ''https://ketryx.example/api/v1/builds'',
                 report_headers = headers reporter_env0,
                 report_json = report_data reporter_env0 env0 ''ci-build''
                   [artifact ''A0'' ''junit-xml'', artifact ''A1'' ''junit-xml'',
                    artifact ''A2'' ''cucumber-json''] \<rparr>,
       Print ''Reported ci-build to Ketryx: B1'',
       Report \<lparr> report_url = ''https://ketryx.example/api/v1/builds'',
                 report_headers = headers reporter_env0,
                 report_json = report_data reporter_env0 env0 ''empty-sbom''
                   [artifact ''A0'' ''junit-xml'', artifact ''A1'' ''junit-xml'',
                    artifact ''A2'' ''cucumber-json''] \<rparr>,
       Print ''Reported empty-sbom to Ketryx: B1''])"
  using C10_empty_sbom_unbound_artifacts [of empty_sbom_build env0 "[test_build]" "[]"
          reporter_env0 "[]" "[]" config_env0 "''empty-sbom.yaml''"]
  by (simp add: run_defs env0_defs upload_request_of_def)



text \<open>
  C4. An upload whose file can be opened posts one request. If the answer has a status
  other than 200, \<open>upload_artifact\<close> raises the exception whose message is
  \<open>Failed to upload artifact: \<close> followed by the text of the answer, unchanged, and
  returns no id; if the status is 200 and the JSON body has an \<open>id\<close>, it returns that
  \<open>id\<close>. In a run of \<open>main\<close>, an upload answered with another status is the last
  request of the run: no report and no further upload follows it, the run ends with
  that exception, and the error line is the last thing printed.
\<close>

theorem C4_upload_refused:
  assumes "map_of (headers r) ''Authorization'' = Some auth" and "readable e file_path"
    and "resp = post e (length (requests tr))"
    and "run = main e config_file"
  shows "(status_code resp \<noteq> 200 \<longrightarrow>
            upload_artifact r e file_path ct tr =
              (Inl (PyException (''Failed to upload artifact: '' @ resp_text resp)),
               tr @ [Upload (upload_request_of r auth file_path ct)])) \<and>
         (status_code resp = 200 \<and> resp_json resp = Some body \<and> map_of body ''id'' = Some i \<longrightarrow>
            upload_artifact r e file_path ct tr =
              (Inr i, tr @ [Upload (upload_request_of r auth file_path ct)])) \<and>
         (k < length (requests (snd run)) \<and> requests (snd run) ! k = Upload u \<and>
          status_code (post e k) \<noteq> 200 \<longrightarrow>
            fst run = Inl (PyException (''Failed to upload artifact: '' @ resp_text (post e k))) \<and>
            Suc k = length (requests (snd run)) \<and>
            (\<exists>tr'. snd run =
               tr' @ [Print_Error (PyException (''Failed to upload artifact: '' @
                                                 resp_text (post e k)))]))"
proof -
  have a: "upload_artifact r e file_path ct tr =
              (Inl (PyException (''Failed to upload artifact: '' @ resp_text resp)),
               tr @ [Upload (upload_request_of r auth file_path ct)])"
    if "status_code resp \<noteq> 200"
    using assms(1-3) that by (simp add: upload_artifact_def upload_request_of_def Let_def)
  have b: "upload_artifact r e file_path ct tr =
              (Inr i, tr @ [Upload (upload_request_of r auth file_path ct)])"
    if "status_code resp = 200" "resp_json resp = Some body" "map_of body ''id'' = Some i"
    using assms(1-3) that by (simp add: upload_artifact_def upload_request_of_def Let_def)
  have c: "fst run = Inl (PyException (''Failed to upload artifact: '' @ resp_text (post e k))) \<and>
            Suc k = length (requests (snd run)) \<and>
            (\<exists>tr'. snd run =
               tr' @ [Print_Error (PyException (''Failed to upload artifact: '' @
                                                 resp_text (post e k)))])"
    if k: "k < length (requests (snd run))" and u: "requests (snd run) ! k = Upload u"
      and s: "status_code (post e k) \<noteq> 200"
  proof -
    from sound_main [of e config_file] k s
    have l: "Suc k = length (requests (snd run))"
      and f: "error_of (fst run) =
                Some (PyException (failure_message (requests (snd run) ! k) (resp_text (post e k))))"
      unfolding sound_def refusal_ends_def assms(4) by blast+
    from f u have fst: "fst run =
        Inl (PyException (''Failed to upload artifact: '' @ resp_text (post e k)))"
      by (cases "fst run") (simp_all add: error_of_def failure_message_def)
    from k have "requests (snd run) \<noteq> []" by auto
    with main_error_line [of e config_file] fst l show ?thesis
      unfolding assms(4) by simp
  qed
  from a b c show ?thesis by blast
qed

theorem C4_upload_refused_witness:
  "status_code (post env_refusing 1) \<noteq> 200 \<and>
   upload_artifact reporter_env0 env_refusing ''out/b.xml'' ''application/xml''
       [Upload (upload_request_of reporter_env0 ''Bearer key'' ''out/a.xml'' ''application/xml'')] =
     (Inl (PyException ''Failed to upload artifact: quota exceeded''),
      [Upload (upload_request_of reporter_env0 ''Bearer key'' ''out/a.xml'' ''application/xml''),
       Upload (upload_request_of reporter_env0 ''Bearer key'' ''out/b.xml'' ''application/xml'')]) \<and>
   upload_artifact reporter_env0 env_refusing ''out/a.xml'' ''application/xml'' [] =
     (Inr ''A0'',
      [Upload (upload_request_of reporter_env0 ''Bearer key'' ''out/a.xml'' ''application/xml'')]) \<and>
   main env_refusing ''tests.yaml'' =
     (Inl (PyException ''Failed to upload artifact: quota exceeded''),
      [Upload (upload_request_of reporter_env0 ''Bearer key'' ''out/a.xml'' ''application/xml''),
       Upload (upload_request_of reporter_env0 ''Bearer key'' ''out/b.xml'' ''application/xml''),
       Print_Error (PyException ''Failed to upload artifact: quota exceeded'')])"
proof -
  let ?a = "Upload (upload_request_of reporter_env0 ''Bearer key'' ''out/a.xml'' ''application/xml'')"
  let ?b = "upload_request_of reporter_env0 ''Bearer key'' ''out/b.xml'' ''application/xml''"
  have auth: "map_of (headers reporter_env0) ''Authorization'' = Some ''Bearer key''"
    by (simp add: reporter_env0_def reporter_of_def)
  have rb: "readable env_refusing ''out/b.xml''" and ra: "readable env_refusing ''out/a.xml''"
    by (simp_all add: env_refusing_defs)
  have p1: "post env_refusing 1 = post env_refusing (length (requests [?a]))"
    and p0: "post env_refusing 0 = post env_refusing (length (requests []))"
    by (simp_all add: requests_def)
  have s1: "status_code (post env_refusing 1) \<noteq> 200"
    and t1: "resp_text (post env_refusing 1) = ''quota exceeded''"
    and s0: "status_code (post env_refusing 0) = 200"
    and j0: "resp_json (post env_refusing 0) = Some [(''id'', ''A0''), (''buildId'', ''B1'')]"
    by (simp_all add: env_refusing_defs)
  have m: "main env_refusing ''tests.yaml'' =
     (Inl (PyException ''Failed to upload artifact: quota exceeded''),
      [?a, Upload ?b, Print_Error (PyException ''Failed to upload artifact: quota exceeded'')])"
    by (simp add: run_defs env_refusing_defs upload_request_of_def)
  have k: "1 < length (requests (snd (main env_refusing ''tests.yaml'')))"
    and u: "requests (snd (main env_refusing ''tests.yaml'')) ! 1 = Upload ?b"
    by (simp_all add: m requests_def)
  from C4_upload_refused [where config_file = "''tests.yaml''" and ct = "''application/xml''"
         and body = "[]" and i = "[]" and k = 1 and u = ?b, OF auth rb p1 refl] s1 t1 k u
  have "upload_artifact reporter_env0 env_refusing ''out/b.xml'' ''application/xml'' [?a] =
          (Inl (PyException ''Failed to upload artifact: quota exceeded''), [?a, Upload ?b])"
    and "fst (main env_refusing ''tests.yaml'') =
          Inl (PyException ''Failed to upload artifact: quota exceeded'')"
    by simp_all
  moreover
  from C4_upload_refused [where config_file = "''tests.yaml''" and ct = "''application/xml''"
         and body = "[(''id'', ''A0''), (''buildId'', ''B1'')]" and i = "''A0''" and k = 1
         and u = ?b, OF auth ra p0 refl] s0 j0
  have "upload_artifact reporter_env0 env_refusing ''out/a.xml'' ''application/xml'' [] =
          (Inr ''A0'', [?a])"
    by simp
  ultimately show ?thesis using s1 m by simp
qed

end
